theory Spec2Isabelle
  imports Main "HOL-Library.Sublist"
begin

section \<open>The HTTP server of package api: configuration and errors\<close>

text \<open>
  \<open>setting.Scheme\<close> is a string type with four named constants. Their declarations
  are in package \<open>setting\<close>, so the constants stay abstract as constructors, and
  \<open>OtherScheme\<close> carries every string that is none of the four.
\<close>

datatype scheme = HTTPScheme | HTTPSScheme | HTTP2Scheme | SocketScheme | OtherScheme string

text \<open>
  \<open>Cfg.Env\<close> is a string; the server only compares it with \<open>setting.Dev\<close>.
\<close>

datatype env = Dev | OtherEnv string

text \<open>The fields of \<open>setting.Cfg\<close> that the server reads.\<close>

record Cfg =
  Protocol :: scheme
  HTTPAddr :: string
  HTTPPort :: string
  SocketPath :: string
  CertFile :: string
  KeyFile :: string
  Env :: env
  EnableGzip :: bool
  StaticRootPath :: string
  ImageUploadProvider :: string
  ImagesDir :: string
  ServeFromSubPath :: bool
  AppSubURL :: string
  EnforceDomain :: bool
  MetricsEndpointEnabled :: bool
  MetricsEndpointBasicAuthUsername :: string
  MetricsEndpointBasicAuthPassword :: string
  AnonymousHideVersion :: bool
  BuildVersion :: string
  BuildCommit :: string

text \<open>
  Go errors as values. \<open>Errorf f args\<close> is \<open>fmt.Errorf\<close> with its format string and
  arguments kept apart (no \<open>%w\<close> verb occurs, so it wraps nothing); \<open>Wrapf e f args\<close> is
  \<open>errutil.Wrapf\<close>, which keeps \<open>e\<close> in the chain; \<open>ErrServerClosed\<close> is the sentinel
  \<open>http.ErrServerClosed\<close>; \<open>SysError\<close> is any error of the operating system or the
  network stack.
\<close>

datatype fmtarg = S string | P scheme

datatype error =
    ErrServerClosed
  | SysError string
  | Errorf string "fmtarg list"
  | Wrapf error string "fmtarg list"

text \<open>\<open>errors.Is\<close>: the error itself or one further down its chain of wrapped errors.\<close>

fun errors_Is :: "error \<Rightarrow> error \<Rightarrow> bool" where
  "errors_Is (Wrapf e f as) target = (Wrapf e f as = target \<or> errors_Is e target)"
| "errors_Is e target = (e = target)"

section \<open>The outside world of \<open>Run\<close>\<close>

text \<open>
  \<open>os.Stat\<close> answers with the file, with an error for which \<open>os.IsNotExist\<close> holds, or
  with another error: permission denied, say, or "not a directory" for a path below a
  regular file, where no file is found and \<open>os.IsNotExist\<close> is false all the same.
\<close>

datatype stat_result = StatOk | StatNotExist | StatOtherError

datatype listener = Provided nat | TCPListener string | UnixListener string

text \<open>
  What the calls of \<open>Run\<close> into the operating system and into \<open>net/http\<close> answer:
  \<open>None\<close> is a nil error.
\<close>

record world =
  stat :: "string \<Rightarrow> stat_result"
  netListen :: "string \<Rightarrow> error option"
  netListenUnix :: "string \<Rightarrow> error option"
  osChmod :: "string \<Rightarrow> error option"
  serve :: "listener \<Rightarrow> error option"
  serveTLS :: "listener \<Rightarrow> string \<Rightarrow> string \<Rightarrow> error option"

text \<open>
  The calls and log lines of one \<open>Run\<close>, in program order. \<open>GoShutdownWatcher\<close> is
  \<open>wg.Add(1)\<close> followed by the \<open>go\<close> statement that starts the shutdown watcher;
  \<open>WgWait\<close> is \<open>wg.Wait()\<close>.
\<close>

datatype event =
    ApplyRoutes
  | NetListen string
  | NetListenUnix string
  | OsChmod string
  | Log string string
  | GoShutdownWatcher
  | HttpServe listener
  | HttpServeTLS listener string string
  | WgWait

datatype run_result = Returned "error option" | Panicked string "fmtarg list"

record tlsConfig =
  MinVersion :: string
  PreferServerCipherSuites :: bool
  CipherSuites :: "string list"
  NextProtos :: "string list"

record httpServer =
  Addr :: string
  TLSConfig :: "tlsConfig option"
  TLSNextProtoCleared :: bool

record HTTPServer =
  Cfg :: Cfg
  Listener :: "listener option"
  middlewares :: "nat list"

section \<open>Transport configuration\<close>

definition TrimPrefix :: "string \<Rightarrow> string \<Rightarrow> string" where
  "TrimPrefix s p = (if prefix p s then drop (length p) s else s)"

definition TrimSuffix :: "string \<Rightarrow> string \<Rightarrow> string" where
  "TrimSuffix s p = (if suffix p s then take (length s - length p) s else s)"

text \<open>\<open>net.JoinHostPort\<close> brackets a host that holds a colon.\<close>

definition JoinHostPort :: "string \<Rightarrow> string \<Rightarrow> string" where
  "JoinHostPort host port =
     (if CHR '':'' \<in> set host
      then ''['' @ host @ '']:'' @ port
      else host @ '':'' @ port)"

definition configureHttps :: "world \<Rightarrow> Cfg \<Rightarrow> httpServer \<Rightarrow> error + httpServer" where
  "configureHttps w cfg srv =
     (if CertFile cfg = [] then Inl (Errorf ''cert_file cannot be empty when using HTTPS'' [])
      else if KeyFile cfg = [] then Inl (Errorf ''cert_key cannot be empty when using HTTPS'' [])
      else if stat w (CertFile cfg) = StatNotExist
        then Inl (Errorf ''cannot find SSL cert_file at %q'' [S (CertFile cfg)])
      else if stat w (KeyFile cfg) = StatNotExist
        then Inl (Errorf ''cannot find SSL key_file at %q'' [S (KeyFile cfg)])
      else Inr (srv\<lparr>
        TLSConfig := Some \<lparr>
          MinVersion = ''VersionTLS12'',
          PreferServerCipherSuites = True,
          CipherSuites = [
            ''TLS_ECDHE_ECDSA_WITH_AES_128_GCM_SHA256'',
            ''TLS_ECDHE_RSA_WITH_AES_128_GCM_SHA256'',
            ''TLS_ECDHE_ECDSA_WITH_AES_256_GCM_SHA384'',
            ''TLS_ECDHE_RSA_WITH_AES_256_GCM_SHA384'',
            ''TLS_ECDHE_RSA_WITH_AES_128_CBC_SHA'',
            ''TLS_ECDHE_ECDSA_WITH_AES_256_CBC_SHA'',
            ''TLS_ECDHE_RSA_WITH_AES_256_CBC_SHA'',
            ''TLS_RSA_WITH_AES_128_GCM_SHA256'',
            ''TLS_RSA_WITH_AES_256_GCM_SHA384'',
            ''TLS_RSA_WITH_AES_128_CBC_SHA'',
            ''TLS_RSA_WITH_AES_256_CBC_SHA''],
          NextProtos = []\<rparr>,
        TLSNextProtoCleared := True\<rparr>))"

definition configureHttp2 :: "world \<Rightarrow> Cfg \<Rightarrow> httpServer \<Rightarrow> error + httpServer" where
  "configureHttp2 w cfg srv =
     (if CertFile cfg = [] then Inl (Errorf ''cert_file cannot be empty when using HTTP2'' [])
      else if KeyFile cfg = [] then Inl (Errorf ''cert_key cannot be empty when using HTTP2'' [])
      else if stat w (CertFile cfg) = StatNotExist
        then Inl (Errorf ''cannot find SSL cert_file at %q'' [S (CertFile cfg)])
      else if stat w (KeyFile cfg) = StatNotExist
        then Inl (Errorf ''cannot find SSL key_file at %q'' [S (KeyFile cfg)])
      else Inr (srv\<lparr>
        TLSConfig := Some \<lparr>
          MinVersion = ''VersionTLS12'',
          PreferServerCipherSuites = True,
          CipherSuites = [
            ''TLS_CHACHA20_POLY1305_SHA256'',
            ''TLS_AES_128_GCM_SHA256'',
            ''TLS_AES_256_GCM_SHA384'',
            ''TLS_ECDHE_ECDSA_WITH_AES_128_GCM_SHA256'',
            ''TLS_ECDHE_RSA_WITH_AES_128_GCM_SHA256'',
            ''TLS_ECDHE_ECDSA_WITH_AES_256_GCM_SHA384'',
            ''TLS_ECDHE_RSA_WITH_AES_256_GCM_SHA384'',
            ''TLS_ECDHE_ECDSA_WITH_CHACHA20_POLY1305'',
            ''TLS_ECDHE_RSA_WITH_CHACHA20_POLY1305''],
          NextProtos = [''h2'', ''http/1.1'']\<rparr>\<rparr>))"

text \<open>
  \<open>getListener\<close>: a listener handed in with the server options is used as it is, before
  the protocol is looked at. The result comes with the calls made on the way.
\<close>

definition getListener ::
  "world \<Rightarrow> HTTPServer \<Rightarrow> httpServer \<Rightarrow> (error + listener) \<times> event list" where
  "getListener w hs srv =
     (case Listener hs of
        Some l \<Rightarrow> (Inr l, [])
      | None \<Rightarrow>
          (let tcp =
                 (case netListen w (Addr srv) of
                    Some err \<Rightarrow>
                      (Inl (Wrapf err ''failed to open listener on address %s'' [S (Addr srv)]),
                       [NetListen (Addr srv)])
                  | None \<Rightarrow> (Inr (TCPListener (Addr srv)), [NetListen (Addr srv)]))
           in case Protocol (Cfg hs) of
                HTTPScheme \<Rightarrow> tcp
              | HTTPSScheme \<Rightarrow> tcp
              | HTTP2Scheme \<Rightarrow> tcp
              | SocketScheme \<Rightarrow>
                  (case netListenUnix w (SocketPath (Cfg hs)) of
                     Some err \<Rightarrow>
                       (Inl (Wrapf err ''failed to open listener for socket %s''
                               [S (SocketPath (Cfg hs))]),
                        [NetListenUnix (SocketPath (Cfg hs))])
                   | None \<Rightarrow>
                       (case osChmod w (SocketPath (Cfg hs)) of
                          Some err \<Rightarrow>
                            (Inl (Wrapf err ''failed to change socket permissions'' []),
                             [NetListenUnix (SocketPath (Cfg hs)), OsChmod (SocketPath (Cfg hs))])
                        | None \<Rightarrow>
                            (Inr (UnixListener (SocketPath (Cfg hs))),
                             [NetListenUnix (SocketPath (Cfg hs)), OsChmod (SocketPath (Cfg hs))])))
              | OtherScheme p \<Rightarrow>
                  (Inl (Errorf ''invalid protocol %q'' [P (OtherScheme p)]),
                   [Log ''error'' ''Invalid protocol''])))"

section \<open>\<open>Run\<close>\<close>

text \<open>
  The serve step of \<open>Run\<close>, after the shutdown watcher has been started: the switch on
  the protocol, and \<open>wg.Wait()\<close> behind it. A serve call that answers an error returns
  from \<open>Run\<close> inside the switch.
\<close>

definition serveStep :: "world \<Rightarrow> Cfg \<Rightarrow> listener \<Rightarrow> run_result \<times> event list" where
  "serveStep w cfg l =
     (let served = (\<lambda>call answer.
            case answer of
              Some err \<Rightarrow>
                if errors_Is err ErrServerClosed
                then (Returned None, [call, Log ''debug'' ''server was shutdown gracefully''])
                else (Returned (Some err), [call])
            | None \<Rightarrow> (Returned None, [call, WgWait]))
      in case Protocol cfg of
           HTTPScheme \<Rightarrow> served (HttpServe l) (serve w l)
         | SocketScheme \<Rightarrow> served (HttpServe l) (serve w l)
         | HTTP2Scheme \<Rightarrow>
             served (HttpServeTLS l (CertFile cfg) (KeyFile cfg)) (serveTLS w l (CertFile cfg) (KeyFile cfg))
         | HTTPSScheme \<Rightarrow>
             served (HttpServeTLS l (CertFile cfg) (KeyFile cfg)) (serveTLS w l (CertFile cfg) (KeyFile cfg))
         | OtherScheme p \<Rightarrow> (Panicked ''Unhandled protocol %q'' [P (OtherScheme p)], []))"

definition Run :: "world \<Rightarrow> HTTPServer \<Rightarrow> run_result \<times> event list" where
  "Run w hs =
     (let cfg = Cfg hs;
          host = TrimSuffix (TrimPrefix (HTTPAddr cfg) ''['') '']'';
          srv = \<lparr>Addr = JoinHostPort host (HTTPPort cfg), TLSConfig = None,
                 TLSNextProtoCleared = False\<rparr>;
          configured =
            (case Protocol cfg of
               HTTP2Scheme \<Rightarrow> configureHttp2 w cfg srv
             | HTTPSScheme \<Rightarrow> configureHttps w cfg srv
             | _ \<Rightarrow> Inr srv)
      in case configured of
           Inl err \<Rightarrow> (Returned (Some err), [ApplyRoutes])
         | Inr srv' \<Rightarrow>
             (case getListener w hs srv' of
                (Inl err, calls) \<Rightarrow> (Returned (Some err), ApplyRoutes # calls)
              | (Inr l, calls) \<Rightarrow>
                  (case serveStep w cfg l of
                     (res, served) \<Rightarrow>
                       (res,
                        ApplyRoutes # calls
                          @ [Log ''info'' ''HTTP Server Listen'', GoShutdownWatcher]
                          @ served))))"

section \<open>Requests, responses and the liveness interceptors\<close>

text \<open>
  The parts of \<open>http.Request\<close> the interceptors read: the method, \<open>URL.Path\<close>, and what
  \<open>req.BasicAuth()\<close> finds in the Authorization header (user name and password, or
  nothing).
\<close>

record request =
  Method :: string
  Path :: string
  BasicAuth :: "(string \<times> string) option"

text \<open>
  The response as the handlers build it: the status line once a header has been
  written, the header fields, and the bytes handed to \<open>Write\<close>.
\<close>

record response =
  status :: "nat option"
  header :: "string \<rightharpoonup> string"
  body :: string

datatype effect = LogError string | PromhttpServeHTTP

text \<open>
  \<open>web.Context\<close> with the request and the response, and beside them what a handler did
  apart from writing the response: the error lines it logged and the call of the
  metrics-exposition handler.
\<close>

record Context =
  Req :: request
  Resp :: response
  Effects :: "effect list"

text \<open>
  What the handlers get from outside: the answer of \<open>hs.databaseHealthy\<close>, whether
  \<open>ctx.Resp.Write\<close> reports an error, the JSON encoder of \<open>simplejson\<close>, and the status
  and payload that the \<open>promhttp\<close> handler writes for a request.
\<close>

record deps =
  databaseHealthy :: bool
  writeFails :: bool
  EncodePretty :: "(string \<rightharpoonup> string) \<Rightarrow> error + string"
  promhttp :: "request \<Rightarrow> nat \<times> string"

definition Written :: "response \<Rightarrow> bool" where
  "Written r = (status r \<noteq> None)"

text \<open>
  \<open>WriteHeader\<close> fixes the status with the first call (\<open>net/http\<close> ignores a later one);
  \<open>Write\<close> writes the header with status 200 first when none has been written.
\<close>

definition WriteHeader :: "nat \<Rightarrow> Context \<Rightarrow> Context" where
  "WriteHeader s c =
     (if Written (Resp c) then c else c\<lparr>Resp := (Resp c)\<lparr>status := Some s\<rparr>\<rparr>)"

definition Write :: "string \<Rightarrow> Context \<Rightarrow> Context" where
  "Write b c = (let c' = WriteHeader 200 c in c'\<lparr>Resp := (Resp c')\<lparr>body := body (Resp c') @ b\<rparr>\<rparr>)"

definition HeaderSet :: "string \<Rightarrow> string \<Rightarrow> Context \<Rightarrow> Context" where
  "HeaderSet k v c = c\<lparr>Resp := (Resp c)\<lparr>header := (header (Resp c))(k \<mapsto> v)\<rparr>\<rparr>"

definition logError :: "string \<Rightarrow> Context \<Rightarrow> Context" where
  "logError msg c = c\<lparr>Effects := Effects c @ [LogError msg]\<rparr>"

definition healthzHandler :: "deps \<Rightarrow> Context \<Rightarrow> Context" where
  "healthzHandler d c =
     (let notHeadOrGet = (Method (Req c) \<noteq> ''GET'' \<and> Method (Req c) \<noteq> ''HEAD'')
      in if notHeadOrGet \<or> Path (Req c) \<noteq> ''/healthz'' then c
         else
           let c1 = Write ''Ok'' (WriteHeader 200 c)
           in if writeFails d then logError ''could not write to response'' c1 else c1)"

definition apiHealthHandler :: "deps \<Rightarrow> Cfg \<Rightarrow> Context \<Rightarrow> Context" where
  "apiHealthHandler d cfg c =
     (let notHeadOrGet = (Method (Req c) \<noteq> ''GET'' \<and> Method (Req c) \<noteq> ''HEAD'')
      in if notHeadOrGet \<or> Path (Req c) \<noteq> ''/api/health'' then c
         else
           let data0 = [''database'' \<mapsto> ''ok''];
               data1 =
                 (if \<not> AnonymousHideVersion cfg
                  then data0(''version'' \<mapsto> BuildVersion cfg, ''commit'' \<mapsto> BuildCommit cfg)
                  else data0);
               data2 = (if \<not> databaseHealthy d then data1(''database'' \<mapsto> ''failing'') else data1);
               c1 =
                 (if \<not> databaseHealthy d
                  then WriteHeader 503 (HeaderSet ''Content-Type'' ''application/json; charset=UTF-8'' c)
                  else WriteHeader 200 (HeaderSet ''Content-Type'' ''application/json; charset=UTF-8'' c))
           in case EncodePretty d data2 of
                Inl err \<Rightarrow> logError ''Failed to encode data'' c1
              | Inr dataBytes \<Rightarrow>
                  let c2 = Write dataBytes c1
                  in if writeFails d then logError ''Failed to write to response'' c2 else c2)"

definition metricsEndpointBasicAuthEnabled :: "Cfg \<Rightarrow> bool" where
  "metricsEndpointBasicAuthEnabled cfg =
     (MetricsEndpointBasicAuthUsername cfg \<noteq> [] \<and> MetricsEndpointBasicAuthPassword cfg \<noteq> [])"

text \<open>
  Modelled from the spec: \<open>BasicAuthenticatedRequest\<close> is declared in another file of
  package \<open>api\<close>. The spec has the metrics endpoint require "HTTP Basic authentication
  against configured credentials", with 401 "on mismatch" and for a "wrong/missing
  credential": the request passes when it carries credentials and both the user name and
  the password are the expected ones.
\<close>

definition BasicAuthenticatedRequest :: "request \<Rightarrow> string \<Rightarrow> string \<Rightarrow> bool" where
  "BasicAuthenticatedRequest req expectedUser expectedPass =
     (case BasicAuth req of
        None \<Rightarrow> False
      | Some (user, pass) \<Rightarrow> user = expectedUser \<and> pass = expectedPass)"

text \<open>
  The handler that \<open>promhttp.HandlerFor\<close> returns, serving the request: the call is
  recorded, and the handler writes its status and payload.
\<close>

definition promhttpServeHTTP :: "deps \<Rightarrow> Context \<Rightarrow> Context" where
  "promhttpServeHTTP d c =
     (case promhttp d (Req c) of
        (s, payload) \<Rightarrow> Write payload (WriteHeader s (c\<lparr>Effects := Effects c @ [PromhttpServeHTTP]\<rparr>)))"

definition metricsEndpoint :: "deps \<Rightarrow> Cfg \<Rightarrow> Context \<Rightarrow> Context" where
  "metricsEndpoint d cfg c =
     (if \<not> MetricsEndpointEnabled cfg then c
      else if Method (Req c) \<noteq> ''GET'' \<or> Path (Req c) \<noteq> ''/metrics'' then c
      else if metricsEndpointBasicAuthEnabled cfg \<and>
              \<not> BasicAuthenticatedRequest (Req c) (MetricsEndpointBasicAuthUsername cfg)
                  (MetricsEndpointBasicAuthPassword cfg)
        then WriteHeader 401 c
      else promhttpServeHTTP d c)"

section \<open>The middleware pipeline\<close>

text \<open>
  \<open>path.Join\<close> and \<open>filepath.Join\<close> are kept as the pair of their arguments.
\<close>

datatype fspath = PathJoin string string

text \<open>
  \<open>httpstatic.StaticOptions\<close>, with the fields \<open>mapStatic\<close> sets; \<open>AddHeaders\<close> is the
  callback that sets the headers of a served file.
\<close>

record StaticOptions =
  SkipLogging :: bool
  Prefix :: string
  AddHeaders :: "Context \<Rightarrow> Context"

text \<open>
  The handlers that \<open>addMiddlewaresAndStaticRoutes\<close> registers. \<open>Custom n\<close> is a handler
  registered from outside with \<open>AddMiddleware\<close>.
\<close>

datatype stage =
    RequestTracing
  | Logger
  | Gziper
  | Recovery
  | Static fspath StaticOptions
  | AddDefaultResponseHeaders
  | Renderer fspath string string
  | HealthzHandler
  | ApiHealthHandler
  | MetricsEndpoint
  | ContextHandlerMiddleware
  | OrgRedirect
  | LoadPermissionsMiddleware
  | ValidateHostHeader
  | HandleNoCacheHeader
  | AddCSPHeader
  | Custom nat

record Mux =
  handlers :: "stage list"
  urlPrefix :: string

text \<open>
  Modelled from the spec: \<open>web.Mux\<close> and its methods \<open>Use\<close>, \<open>UseMiddleware\<close> and
  \<open>SetURLPrefix\<close> are in package \<open>web\<close>. The spec has the pipeline as "an ordered, mutable
  list of request-processing stages applied to every incoming request": both ways of
  registering a handler put it at the end of the list.
\<close>

definition Use :: "stage \<Rightarrow> Mux \<Rightarrow> Mux" where
  "Use h m = m\<lparr>handlers := handlers m @ [h]\<rparr>"

definition UseMiddleware :: "stage \<Rightarrow> Mux \<Rightarrow> Mux" where
  "UseMiddleware h m = m\<lparr>handlers := handlers m @ [h]\<rparr>"

definition SetURLPrefix :: "string \<Rightarrow> Mux \<Rightarrow> Mux" where
  "SetURLPrefix p m = m\<lparr>urlPrefix := p\<rparr>"

definition AddMiddleware :: "nat \<Rightarrow> HTTPServer \<Rightarrow> HTTPServer" where
  "AddMiddleware middleware hs = hs\<lparr>middlewares := middlewares hs @ [middleware]\<rparr>"

definition mapStatic :: "HTTPServer \<Rightarrow> Mux \<Rightarrow> string \<Rightarrow> string \<Rightarrow> string \<Rightarrow> Mux" where
  "mapStatic hs m rootDir dir pfx =
     (let headers = HeaderSet ''Cache-Control'' ''public, max-age=3600'';
          headers =
            (if pfx = ''public/build''
             then HeaderSet ''Cache-Control'' ''public, max-age=31536000''
             else headers);
          headers =
            (if Env (Cfg hs) = Dev
             then HeaderSet ''Cache-Control'' ''max-age=0, must-revalidate, no-cache''
             else headers)
      in Use (Static (PathJoin rootDir dir)
                \<lparr>SkipLogging = True, Prefix = pfx, AddHeaders = headers\<rparr>) m)"

definition addMiddlewaresAndStaticRoutes :: "HTTPServer \<Rightarrow> Mux \<Rightarrow> Mux" where
  "addMiddlewaresAndStaticRoutes hs m =
     (let cfg = Cfg hs;
          m = Use RequestTracing m;
          m = Use Logger m;
          m = (if EnableGzip cfg then UseMiddleware Gziper m else m);
          m = Use Recovery m;
          m = mapStatic hs m (StaticRootPath cfg) ''build'' ''public/build'';
          m = mapStatic hs m (StaticRootPath cfg) [] ''public'';
          m = mapStatic hs m (StaticRootPath cfg) ''robots.txt'' ''robots.txt'';
          m = (if ImageUploadProvider cfg = ''local''
               then mapStatic hs m (ImagesDir cfg) [] ''/public/img/attachments''
               else m);
          m = Use AddDefaultResponseHeaders m;
          m = (if ServeFromSubPath cfg \<and> AppSubURL cfg \<noteq> []
               then SetURLPrefix (AppSubURL cfg) m
               else m);
          m = UseMiddleware (Renderer (PathJoin (StaticRootPath cfg) ''views'') ''[['' '']]'') m;
          m = Use HealthzHandler m;
          m = Use ApiHealthHandler m;
          m = Use MetricsEndpoint m;
          m = Use ContextHandlerMiddleware m;
          m = Use OrgRedirect m;
          m = Use LoadPermissionsMiddleware m;
          m = (if EnforceDomain cfg then Use ValidateHostHeader m else m);
          m = Use HandleNoCacheHeader m;
          m = UseMiddleware AddCSPHeader m
      in fold (\<lambda>mw. Use (Custom mw)) (middlewares hs) m)"





section \<open>Example inputs\<close>

text \<open>
  A production configuration for plain HTTP on port 3000, with the metrics endpoint
  enabled and no credentials configured for it, and a server without a handed-in listener.
\<close>

definition exampleCfg :: Cfg where
  "exampleCfg =
     \<lparr>Protocol = HTTPScheme, HTTPAddr = ''0.0.0.0'', HTTPPort = ''3000'', SocketPath = [],
      CertFile = [], KeyFile = [], Env = OtherEnv ''production'', EnableGzip = False,
      StaticRootPath = ''public'', ImageUploadProvider = [], ImagesDir = [],
      ServeFromSubPath = False, AppSubURL = [], EnforceDomain = False,
      MetricsEndpointEnabled = True, MetricsEndpointBasicAuthUsername = [],
      MetricsEndpointBasicAuthPassword = [], AnonymousHideVersion = False,
      BuildVersion = ''8.4.0'', BuildCommit = ''abc''\<rparr>"

definition exampleServer :: HTTPServer where
  "exampleServer = \<lparr>Cfg = exampleCfg, Listener = None, middlewares = []\<rparr>"

text \<open>
  A world without certificate files in which every listener opens, and in which the
  serve call answers \<open>http.ErrServerClosed\<close>, as it does once the shutdown watcher has
  called \<open>Shutdown\<close>; and the same world with a serve call that breaks.
\<close>

definition shutdownWorld :: world where
  "shutdownWorld =
     \<lparr>stat = (\<lambda>_. StatNotExist), netListen = (\<lambda>_. None), netListenUnix = (\<lambda>_. None),
      osChmod = (\<lambda>_. None), serve = (\<lambda>_. Some ErrServerClosed),
      serveTLS = (\<lambda>_ _ _. Some ErrServerClosed)\<rparr>"

definition brokenWorld :: world where
  "brokenWorld = shutdownWorld\<lparr>serve := (\<lambda>_. Some (SysError ''accept: too many open files''))\<rparr>"

text \<open>
  The world in which \<open>os.Stat\<close> fails with an error other than "does not exist" (as
  for a path below a regular file), and a server for HTTPS with certificate and key paths.
\<close>

definition notDirWorld :: world where
  "notDirWorld = shutdownWorld\<lparr>stat := (\<lambda>_. StatOtherError)\<rparr>"

definition tlsServer :: HTTPServer where
  "tlsServer =
     exampleServer\<lparr>Cfg := exampleCfg\<lparr>Protocol := HTTPSScheme,
       CertFile := ''/etc/grafana/cert.pem'', KeyFile := ''/etc/grafana/key.pem''\<rparr>\<rparr>"

text \<open>
  A request as it arrives: nothing written, no header set, nothing logged.
\<close>

definition newContext :: "request \<Rightarrow> Context" where
  "newContext req =
     \<lparr>Req = req, Resp = \<lparr>status = None, header = Map.empty, body = []\<rparr>, Effects = []\<rparr>"

text \<open>
  Dependencies for the examples: the database probe fails, writes succeed, the encoder
  renders the three fields an object of the health check can hold, and the metrics
  handler answers 200 with a short payload.
\<close>

definition exampleEncode :: "(string \<rightharpoonup> string) \<Rightarrow> error + string" where
  "exampleEncode data =
     Inr (concat (map (\<lambda>k. case data k of None \<Rightarrow> [] | Some v \<Rightarrow> k @ ''='' @ v @ '';'')
            [''commit'', ''database'', ''version'']))"

definition exampleDeps :: deps where
  "exampleDeps = \<lparr>databaseHealthy = False, writeFails = False, EncodePretty = exampleEncode,
     promhttp = (\<lambda>_. (200, ''# EOF''))\<rparr>"

text \<open>The example configuration with credentials configured for the metrics endpoint.\<close>

definition authCfg :: Cfg where
  "authCfg = exampleCfg\<lparr>MetricsEndpointBasicAuthUsername := ''admin'',
     MetricsEndpointBasicAuthPassword := ''secret''\<rparr>"

section \<open>Properties of \<open>Run\<close>\<close>

lemmas example_defs = exampleCfg_def exampleServer_def shutdownWorld_def brokenWorld_def
  notDirWorld_def tlsServer_def

lemmas Run_defs = Run_def Let_def serveStep_def getListener_def configureHttps_def
  configureHttp2_def TrimPrefix_def TrimSuffix_def JoinHostPort_def suffix_to_prefix

text \<open>
  Claim C1, as stated, fails twice. It speaks of every transport mode, and \<open>Run\<close> looks at
  the certificate and the key only for HTTPS and HTTP2: with plain HTTP and both paths
  empty, \<open>Run\<close> opens the TCP listener, serves, and returns nil. And it speaks of a path
  that points to no file, while \<open>Run\<close> tests \<open>os.IsNotExist\<close> alone: with HTTPS and paths
  for which \<open>os.Stat\<close> fails with another error, \<open>Run\<close> opens the listener as well.
\<close>

theorem Run_plain_http_empty_cert_counterexample:
  "Protocol (Cfg exampleServer) = HTTPScheme \<and>
   CertFile (Cfg exampleServer) = [] \<and> KeyFile (Cfg exampleServer) = [] \<and>
   NetListen ''0.0.0.0:3000'' \<in> set (snd (Run shutdownWorld exampleServer)) \<and>
   fst (Run shutdownWorld exampleServer) = Returned None \<and>
   Protocol (Cfg tlsServer) = HTTPSScheme \<and>
   stat notDirWorld (CertFile (Cfg tlsServer)) = StatOtherError \<and>
   NetListen ''0.0.0.0:3000'' \<in> set (snd (Run notDirWorld tlsServer)) \<and>
   fst (Run notDirWorld tlsServer) = Returned None"
  by (simp add: example_defs Run_defs)

lemma Run_tls_fails:
  assumes "Protocol (Cfg hs) = HTTPSScheme \<or> Protocol (Cfg hs) = HTTP2Scheme"
    and "CertFile (Cfg hs) = [] \<or> KeyFile (Cfg hs) = [] \<or>
         stat w (CertFile (Cfg hs)) = StatNotExist \<or> stat w (KeyFile (Cfg hs)) = StatNotExist"
  shows "\<exists>err. Run w hs = (Returned (Some err), [ApplyRoutes])"
  using assms by (auto simp: Run_def Let_def configureHttps_def configureHttp2_def)

lemma Run_tls_listens:
  assumes "Protocol (Cfg hs) = HTTPSScheme \<or> Protocol (Cfg hs) = HTTP2Scheme"
    and "CertFile (Cfg hs) \<noteq> []" and "KeyFile (Cfg hs) \<noteq> []"
    and "stat w (CertFile (Cfg hs)) \<noteq> StatNotExist" and "stat w (KeyFile (Cfg hs)) \<noteq> StatNotExist"
    and "Listener hs = None"
  shows "take 2 (snd (Run w hs)) =
           [ApplyRoutes,
            NetListen (JoinHostPort (TrimSuffix (TrimPrefix (HTTPAddr (Cfg hs)) ''['') '']'')
              (HTTPPort (Cfg hs)))]"
  using assms
  by (auto simp: Run_def Let_def configureHttps_def configureHttp2_def getListener_def
      split: option.splits prod.splits)

lemma Run_plain_ignores_paths:
  assumes "Protocol (Cfg hs) = HTTPScheme \<or> Protocol (Cfg hs) = SocketScheme"
  shows "Run (w\<lparr>stat := s\<rparr>) (hs\<lparr>Cfg := (Cfg hs)\<lparr>CertFile := cf, KeyFile := kf\<rparr>\<rparr>) = Run w hs"
  using assms
  by (auto simp: Run_def Let_def getListener_def serveStep_def split: option.splits)

text \<open>
  Claim C1, amended. In the modes HTTPS and HTTP2: when the certificate path or the key
  path is empty, or \<open>os.Stat\<close> answers for one of them with an error for which
  \<open>os.IsNotExist\<close> holds, \<open>Run\<close> returns an error, and all it has done by then is to apply
  the routes, so no call that opens a listener was made; when both paths are non-empty and
  neither answer is such an error, the checks pass, and without a handed-in listener the
  call after applying the routes is \<open>net.Listen\<close>. In the modes plain HTTP and Unix
  socket, \<open>Run\<close> does the same whatever the two paths and the files are.
\<close>

theorem Run_tls_requires_cert_and_key:
  "((Protocol (Cfg hs) = HTTPSScheme \<or> Protocol (Cfg hs) = HTTP2Scheme) \<and>
    (CertFile (Cfg hs) = [] \<or> KeyFile (Cfg hs) = [] \<or>
     stat w (CertFile (Cfg hs)) = StatNotExist \<or> stat w (KeyFile (Cfg hs)) = StatNotExist) \<longrightarrow>
      (\<exists>err. Run w hs = (Returned (Some err), [ApplyRoutes]))) \<and>
   ((Protocol (Cfg hs) = HTTPSScheme \<or> Protocol (Cfg hs) = HTTP2Scheme) \<and>
    CertFile (Cfg hs) \<noteq> [] \<and> KeyFile (Cfg hs) \<noteq> [] \<and>
    stat w (CertFile (Cfg hs)) \<noteq> StatNotExist \<and> stat w (KeyFile (Cfg hs)) \<noteq> StatNotExist \<and>
    Listener hs = None \<longrightarrow>
      take 2 (snd (Run w hs)) =
        [ApplyRoutes,
         NetListen (JoinHostPort (TrimSuffix (TrimPrefix (HTTPAddr (Cfg hs)) ''['') '']'')
           (HTTPPort (Cfg hs)))]) \<and>
   (Protocol (Cfg hs) = HTTPScheme \<or> Protocol (Cfg hs) = SocketScheme \<longrightarrow>
      Run (w\<lparr>stat := s\<rparr>) (hs\<lparr>Cfg := (Cfg hs)\<lparr>CertFile := cf, KeyFile := kf\<rparr>\<rparr>) = Run w hs)"
  using Run_tls_fails [of hs w] Run_tls_listens [of hs w]
    Run_plain_ignores_paths [where hs = hs and w = w and s = s and cf = cf and kf = kf]
  by blast

text \<open>
  Witness for C1: HTTPS with a certificate path that names no file, HTTP2 with an empty
  key path, HTTPS with paths for which \<open>os.Stat\<close> fails with another error, and plain HTTP
  with and without certificate files.
\<close>

theorem Run_tls_requires_cert_and_key_witness:
  "stat shutdownWorld ''/etc/grafana/cert.pem'' = StatNotExist \<and>
   (\<exists>err. Run shutdownWorld tlsServer = (Returned (Some err), [ApplyRoutes])) \<and>
   (\<exists>err. Run shutdownWorld
      (exampleServer\<lparr>Cfg := exampleCfg\<lparr>Protocol := HTTP2Scheme,
         CertFile := ''/etc/grafana/cert.pem''\<rparr>\<rparr>)
      = (Returned (Some err), [ApplyRoutes])) \<and>
   take 2 (snd (Run notDirWorld tlsServer)) = [ApplyRoutes, NetListen ''0.0.0.0:3000''] \<and>
   Run (shutdownWorld\<lparr>stat := (\<lambda>_. StatOk)\<rparr>)
     (exampleServer\<lparr>Cfg := (Cfg exampleServer)\<lparr>CertFile := ''cert.pem'', KeyFile := ''key.pem''\<rparr>\<rparr>) =
   Run shutdownWorld exampleServer"
  using
    Run_tls_requires_cert_and_key [where hs = tlsServer and w = shutdownWorld]
    Run_tls_requires_cert_and_key [where hs = "exampleServer\<lparr>Cfg := exampleCfg\<lparr>Protocol := HTTP2Scheme,
         CertFile := ''/etc/grafana/cert.pem''\<rparr>\<rparr>" and w = shutdownWorld]
    Run_tls_requires_cert_and_key [where hs = tlsServer and w = notDirWorld]
    Run_tls_requires_cert_and_key [where hs = exampleServer and w = shutdownWorld
      and s = "\<lambda>_. StatOk" and cf = "''cert.pem''" and kf = "''key.pem''"]
  by (simp add: example_defs TrimPrefix_def TrimSuffix_def JoinHostPort_def suffix_to_prefix)

text \<open>
  Claim C3 at the graceful shutdown: the serve call answers \<open>http.ErrServerClosed\<close>, and
  \<open>Run\<close> returns nil from inside the switch. The shutdown watcher has been started, and
  \<open>wg.Wait()\<close> is not among the calls \<open>Run\<close> made before it returned.
\<close>

theorem Run_graceful_shutdown_returns_without_wait:
  "Run shutdownWorld exampleServer =
     (Returned None,
      [ApplyRoutes, NetListen ''0.0.0.0:3000'', Log ''info'' ''HTTP Server Listen'',
       GoShutdownWatcher, HttpServe (TCPListener ''0.0.0.0:3000''),
       Log ''debug'' ''server was shutdown gracefully'']) \<and>
   GoShutdownWatcher \<in> set (snd (Run shutdownWorld exampleServer)) \<and>
   WgWait \<notin> set (snd (Run shutdownWorld exampleServer))"
  by (simp add: example_defs Run_defs)

lemma Run_serve_result_aux:
  assumes "Run w hs = (res, tr)"
  shows "(HttpServe l \<in> set tr \<and> serve w l = Some e \<longrightarrow>
            res = (if errors_Is e ErrServerClosed then Returned None else Returned (Some e))) \<and>
         (HttpServeTLS l c k \<in> set tr \<and> serveTLS w l c k = Some e \<longrightarrow>
            res = (if errors_Is e ErrServerClosed then Returned None else Returned (Some e)))"
  using assms
  by (auto simp: Run_def Let_def serveStep_def getListener_def configureHttps_def configureHttp2_def
      split: scheme.splits sum.splits option.splits if_splits prod.splits)

text \<open>
  Claim C4: when \<open>Run\<close> has called \<open>Serve\<close> or \<open>ServeTLS\<close> and the call answers an error,
  \<open>Run\<close> returns nil if the error is \<open>http.ErrServerClosed\<close> (by \<open>errors.Is\<close>), and returns
  that very error otherwise.
\<close>

theorem Run_serve_error_result:
  "(HttpServe l \<in> set (snd (Run w hs)) \<and> serve w l = Some e \<longrightarrow>
      fst (Run w hs) = (if errors_Is e ErrServerClosed then Returned None else Returned (Some e))) \<and>
   (HttpServeTLS l c k \<in> set (snd (Run w hs)) \<and> serveTLS w l c k = Some e \<longrightarrow>
      fst (Run w hs) = (if errors_Is e ErrServerClosed then Returned None else Returned (Some e)))"
  using Run_serve_result_aux [of w hs "fst (Run w hs)" "snd (Run w hs)" l e c k] by simp

text \<open>
  Witness for C4: plain HTTP with a serve call that answers \<open>http.ErrServerClosed\<close>, plain
  HTTP with a serve call that answers another error, and HTTPS (certificate and key in
  place) with a \<open>ServeTLS\<close> call that answers \<open>http.ErrServerClosed\<close>.
\<close>

theorem Run_serve_error_result_witness:
  "HttpServe (TCPListener ''0.0.0.0:3000'') \<in> set (snd (Run shutdownWorld exampleServer)) \<and>
   fst (Run shutdownWorld exampleServer) = Returned None \<and>
   HttpServe (TCPListener ''0.0.0.0:3000'') \<in> set (snd (Run brokenWorld exampleServer)) \<and>
   fst (Run brokenWorld exampleServer) = Returned (Some (SysError ''accept: too many open files'')) \<and>
   HttpServeTLS (TCPListener ''0.0.0.0:3000'') ''cert.pem'' ''key.pem''
     \<in> set (snd (Run (shutdownWorld\<lparr>stat := (\<lambda>_. StatOk)\<rparr>)
               (exampleServer\<lparr>Cfg := exampleCfg\<lparr>Protocol := HTTPSScheme,
                  CertFile := ''cert.pem'', KeyFile := ''key.pem''\<rparr>\<rparr>))) \<and>
   fst (Run (shutdownWorld\<lparr>stat := (\<lambda>_. StatOk)\<rparr>)
          (exampleServer\<lparr>Cfg := exampleCfg\<lparr>Protocol := HTTPSScheme,
             CertFile := ''cert.pem'', KeyFile := ''key.pem''\<rparr>\<rparr>)) = Returned None"
  using
    Run_serve_error_result [of "TCPListener ''0.0.0.0:3000''" shutdownWorld exampleServer
      ErrServerClosed]
    Run_serve_error_result [of "TCPListener ''0.0.0.0:3000''" brokenWorld exampleServer
      "SysError ''accept: too many open files''"]
    Run_serve_error_result [of "TCPListener ''0.0.0.0:3000''"
      "shutdownWorld\<lparr>stat := (\<lambda>_. StatOk)\<rparr>"
      "exampleServer\<lparr>Cfg := exampleCfg\<lparr>Protocol := HTTPSScheme,
         CertFile := ''cert.pem'', KeyFile := ''key.pem''\<rparr>\<rparr>"
      ErrServerClosed "''cert.pem''" "''key.pem''"]
  by (simp add: example_defs Run_defs)

text \<open>
  Claim C9, as stated, fails for a server with a handed-in listener: \<open>getListener\<close> returns
  that listener before it looks at the protocol, so \<open>Run\<close> does not return the "invalid
  protocol" error; it starts the shutdown watcher and panics at the serve step.
\<close>

theorem Run_unrecognized_protocol_provided_listener_counterexample:
  "Run shutdownWorld
     (exampleServer\<lparr>Cfg := exampleCfg\<lparr>Protocol := OtherScheme ''ftp''\<rparr>,
        Listener := Some (Provided 0)\<rparr>) =
     (Panicked ''Unhandled protocol %q'' [P (OtherScheme ''ftp'')],
      [ApplyRoutes, Log ''info'' ''HTTP Server Listen'', GoShutdownWatcher]) \<and>
   fst (Run shutdownWorld
     (exampleServer\<lparr>Cfg := exampleCfg\<lparr>Protocol := OtherScheme ''ftp''\<rparr>,
        Listener := Some (Provided 0)\<rparr>)) \<noteq>
     Returned (Some (Errorf ''invalid protocol %q'' [P (OtherScheme ''ftp'')]))"
  by (simp add: example_defs Run_defs)

text \<open>
  Claim C9, amended: with a protocol that is none of the four, \<open>Run\<close> never calls \<open>Serve\<close>
  or \<open>ServeTLS\<close>. Without a handed-in listener it returns the "invalid protocol" error of
  \<open>getListener\<close>, having opened nothing; with a handed-in listener the protocol reaches
  the serve step, where \<open>Run\<close> panics.
\<close>

theorem Run_unrecognized_protocol:
  assumes "Protocol (Cfg hs) = OtherScheme p"
  shows "(Listener hs = None \<longrightarrow>
            Run w hs = (Returned (Some (Errorf ''invalid protocol %q'' [P (OtherScheme p)])),
                        [ApplyRoutes, Log ''error'' ''Invalid protocol''])) \<and>
         (\<forall>l. Listener hs = Some l \<longrightarrow>
            Run w hs = (Panicked ''Unhandled protocol %q'' [P (OtherScheme p)],
                        [ApplyRoutes, Log ''info'' ''HTTP Server Listen'', GoShutdownWatcher])) \<and>
         (\<forall>l. HttpServe l \<notin> set (snd (Run w hs))) \<and>
         (\<forall>l c k. HttpServeTLS l c k \<notin> set (snd (Run w hs)))"
  using assms
  by (cases "Listener hs") (simp_all add: Run_def Let_def serveStep_def getListener_def)

text \<open>
  Witness for C9: the protocol "ftp", once without and once with a handed-in listener.
\<close>

theorem Run_unrecognized_protocol_witness:
  "Run shutdownWorld (exampleServer\<lparr>Cfg := exampleCfg\<lparr>Protocol := OtherScheme ''ftp''\<rparr>\<rparr>) =
     (Returned (Some (Errorf ''invalid protocol %q'' [P (OtherScheme ''ftp'')])),
      [ApplyRoutes, Log ''error'' ''Invalid protocol'']) \<and>
   Run shutdownWorld
     (exampleServer\<lparr>Cfg := exampleCfg\<lparr>Protocol := OtherScheme ''ftp''\<rparr>,
        Listener := Some (Provided 7)\<rparr>) =
     (Panicked ''Unhandled protocol %q'' [P (OtherScheme ''ftp'')],
      [ApplyRoutes, Log ''info'' ''HTTP Server Listen'', GoShutdownWatcher])"
  using
    Run_unrecognized_protocol [of
      "exampleServer\<lparr>Cfg := exampleCfg\<lparr>Protocol := OtherScheme ''ftp''\<rparr>\<rparr>" "''ftp''" shutdownWorld]
    Run_unrecognized_protocol [of
      "exampleServer\<lparr>Cfg := exampleCfg\<lparr>Protocol := OtherScheme ''ftp''\<rparr>,
         Listener := Some (Provided 7)\<rparr>" "''ftp''" shutdownWorld]
  by (simp add: example_defs)

section \<open>Properties of the liveness interceptors\<close>

lemmas handler_defs = healthzHandler_def apiHealthHandler_def metricsEndpoint_def promhttpServeHTTP_def
  metricsEndpointBasicAuthEnabled_def BasicAuthenticatedRequest_def
  WriteHeader_def Write_def HeaderSet_def logError_def Written_def Let_def

text \<open>
  Claim C5: on a response that nothing has been written to, a GET or HEAD request for
  exactly \<open>/healthz\<close> gets status 200 and the body "Ok", whatever the dependencies
  (the database among them) and whatever credentials the request carries; for every other
  method or path the handler leaves the context as it is.
\<close>

theorem healthzHandler_responds_ok:
  assumes "status (Resp c) = None" and "body (Resp c) = []"
  shows "((Method (Req c) = ''GET'' \<or> Method (Req c) = ''HEAD'') \<and> Path (Req c) = ''/healthz'' \<longrightarrow>
            status (Resp (healthzHandler d c)) = Some 200 \<and>
            body (Resp (healthzHandler d c)) = ''Ok'') \<and>
         (\<not> ((Method (Req c) = ''GET'' \<or> Method (Req c) = ''HEAD'') \<and> Path (Req c) = ''/healthz'') \<longrightarrow>
            healthzHandler d c = c)"
  using assms by (auto simp: handler_defs)

text \<open>
  Witness for C5: GET and HEAD on \<open>/healthz\<close> with a failing database, and a POST that
  passes through.
\<close>

theorem healthzHandler_responds_ok_witness:
  "databaseHealthy exampleDeps = False \<and>
   status (Resp (healthzHandler exampleDeps
     (newContext \<lparr>Method = ''GET'', Path = ''/healthz'', BasicAuth = None\<rparr>))) = Some 200 \<and>
   body (Resp (healthzHandler exampleDeps
     (newContext \<lparr>Method = ''HEAD'', Path = ''/healthz'', BasicAuth = None\<rparr>))) = ''Ok'' \<and>
   healthzHandler exampleDeps (newContext \<lparr>Method = ''POST'', Path = ''/healthz'', BasicAuth = None\<rparr>) =
     newContext \<lparr>Method = ''POST'', Path = ''/healthz'', BasicAuth = None\<rparr>"
  using
    healthzHandler_responds_ok [of "newContext \<lparr>Method = ''GET'', Path = ''/healthz'', BasicAuth = None\<rparr>" exampleDeps]
    healthzHandler_responds_ok [of "newContext \<lparr>Method = ''HEAD'', Path = ''/healthz'', BasicAuth = None\<rparr>" exampleDeps]
    healthzHandler_responds_ok [of "newContext \<lparr>Method = ''POST'', Path = ''/healthz'', BasicAuth = None\<rparr>" exampleDeps]
  by (simp add: newContext_def exampleDeps_def)

text \<open>
  Claim C6: for a GET or HEAD request for exactly \<open>/api/health\<close>, on a response that
  nothing has been written to, the status is 200 and the field \<open>database\<close> is "ok" when
  the database probe succeeds, and the status is 503 and the field is "failing" when it
  fails; the fields \<open>version\<close> and \<open>commit\<close> are set, to the build version and build
  commit, exactly when \<open>AnonymousHideVersion\<close> is off. The body is that object as
  \<open>EncodePretty\<close> renders it.
\<close>

theorem apiHealthHandler_reports_database:
  assumes "Method (Req c) = ''GET'' \<or> Method (Req c) = ''HEAD''"
    and "Path (Req c) = ''/api/health''"
    and "status (Resp c) = None" and "body (Resp c) = []"
  shows "\<exists>data.
           status (Resp (apiHealthHandler d cfg c)) = Some (if databaseHealthy d then 200 else 503) \<and>
           data ''database'' = Some (if databaseHealthy d then ''ok'' else ''failing'') \<and>
           data ''version'' = (if AnonymousHideVersion cfg then None else Some (BuildVersion cfg)) \<and>
           data ''commit'' = (if AnonymousHideVersion cfg then None else Some (BuildCommit cfg)) \<and>
           body (Resp (apiHealthHandler d cfg c)) =
             (case EncodePretty d data of Inr dataBytes \<Rightarrow> dataBytes | Inl err \<Rightarrow> [])"
proof -
  let ?data = "(if AnonymousHideVersion cfg then [''database'' \<mapsto> ''ok'']
                else [''database'' \<mapsto> ''ok'', ''version'' \<mapsto> BuildVersion cfg, ''commit'' \<mapsto> BuildCommit cfg])"
  let ?data2 = "if databaseHealthy d then ?data else ?data(''database'' \<mapsto> ''failing'')"
  show ?thesis
    using assms
    by (intro exI [of _ ?data2]) (auto simp: handler_defs split: sum.splits)
qed

text \<open>
  Witness for C6: a failing database with the version shown, and a healthy database with
  the version hidden.
\<close>

theorem apiHealthHandler_reports_database_witness:
  "status (Resp (apiHealthHandler exampleDeps exampleCfg
     (newContext \<lparr>Method = ''GET'', Path = ''/api/health'', BasicAuth = None\<rparr>))) = Some 503 \<and>
   body (Resp (apiHealthHandler exampleDeps exampleCfg
     (newContext \<lparr>Method = ''GET'', Path = ''/api/health'', BasicAuth = None\<rparr>))) =
     ''commit=abc;database=failing;version=8.4.0;'' \<and>
   status (Resp (apiHealthHandler (exampleDeps\<lparr>databaseHealthy := True\<rparr>)
     (exampleCfg\<lparr>AnonymousHideVersion := True\<rparr>)
     (newContext \<lparr>Method = ''HEAD'', Path = ''/api/health'', BasicAuth = None\<rparr>))) = Some 200 \<and>
   body (Resp (apiHealthHandler (exampleDeps\<lparr>databaseHealthy := True\<rparr>)
     (exampleCfg\<lparr>AnonymousHideVersion := True\<rparr>)
     (newContext \<lparr>Method = ''HEAD'', Path = ''/api/health'', BasicAuth = None\<rparr>))) = ''database=ok;''"
  using
    apiHealthHandler_reports_database [of "newContext \<lparr>Method = ''GET'', Path = ''/api/health'', BasicAuth = None\<rparr>"
      exampleDeps exampleCfg]
    apiHealthHandler_reports_database [of "newContext \<lparr>Method = ''HEAD'', Path = ''/api/health'', BasicAuth = None\<rparr>"
      "exampleDeps\<lparr>databaseHealthy := True\<rparr>" "exampleCfg\<lparr>AnonymousHideVersion := True\<rparr>"]
  by (auto simp: newContext_def exampleDeps_def exampleCfg_def exampleEncode_def)

text \<open>
  Claim C7: for a GET request for exactly \<open>/metrics\<close> with the endpoint enabled, on a
  response that nothing has been written to: when basic authentication is configured and
  the request carries no credentials or other ones than the configured pair, the status
  is 401, the body is empty and nothing else happens (the metrics handler is not called);
  otherwise the metrics handler is called and writes its status and payload. For every
  other method or path, or with the endpoint disabled, the context is left as it is.
\<close>

theorem metricsEndpoint_basic_auth:
  assumes "status (Resp c) = None" and "body (Resp c) = []"
  shows "(MetricsEndpointEnabled cfg \<and> Method (Req c) = ''GET'' \<and> Path (Req c) = ''/metrics'' \<longrightarrow>
           (if metricsEndpointBasicAuthEnabled cfg \<and>
               BasicAuth (Req c) \<noteq>
                 Some (MetricsEndpointBasicAuthUsername cfg, MetricsEndpointBasicAuthPassword cfg)
            then status (Resp (metricsEndpoint d cfg c)) = Some 401 \<and>
                 body (Resp (metricsEndpoint d cfg c)) = [] \<and>
                 Effects (metricsEndpoint d cfg c) = Effects c
            else metricsEndpoint d cfg c = promhttpServeHTTP d c \<and>
                 PromhttpServeHTTP \<in> set (Effects (metricsEndpoint d cfg c)) \<and>
                 status (Resp (metricsEndpoint d cfg c)) = Some (fst (promhttp d (Req c))) \<and>
                 body (Resp (metricsEndpoint d cfg c)) = snd (promhttp d (Req c)))) \<and>
         (\<not> (MetricsEndpointEnabled cfg \<and> Method (Req c) = ''GET'' \<and> Path (Req c) = ''/metrics'') \<longrightarrow>
            metricsEndpoint d cfg c = c)"
  using assms by (auto simp: handler_defs split: option.splits prod.splits)

text \<open>
  Witness for C7: with credentials configured, a request without credentials, one with a
  wrong password and one with the right pair; without credentials configured, a request
  without credentials; and a POST that passes through.
\<close>

theorem metricsEndpoint_basic_auth_witness:
  "status (Resp (metricsEndpoint exampleDeps authCfg
     (newContext \<lparr>Method = ''GET'', Path = ''/metrics'', BasicAuth = None\<rparr>))) = Some 401 \<and>
   body (Resp (metricsEndpoint exampleDeps authCfg
     (newContext \<lparr>Method = ''GET'', Path = ''/metrics'', BasicAuth = Some (''admin'', ''guess'')\<rparr>))) = [] \<and>
   Effects (metricsEndpoint exampleDeps authCfg
     (newContext \<lparr>Method = ''GET'', Path = ''/metrics'', BasicAuth = Some (''admin'', ''guess'')\<rparr>)) = [] \<and>
   PromhttpServeHTTP \<in> set (Effects (metricsEndpoint exampleDeps authCfg
     (newContext \<lparr>Method = ''GET'', Path = ''/metrics'', BasicAuth = Some (''admin'', ''secret'')\<rparr>))) \<and>
   body (Resp (metricsEndpoint exampleDeps exampleCfg
     (newContext \<lparr>Method = ''GET'', Path = ''/metrics'', BasicAuth = None\<rparr>))) = ''# EOF'' \<and>
   metricsEndpoint exampleDeps authCfg
     (newContext \<lparr>Method = ''POST'', Path = ''/metrics'', BasicAuth = None\<rparr>) =
     newContext \<lparr>Method = ''POST'', Path = ''/metrics'', BasicAuth = None\<rparr>"
  using
    metricsEndpoint_basic_auth [of "newContext \<lparr>Method = ''GET'', Path = ''/metrics'', BasicAuth = None\<rparr>" authCfg exampleDeps]
    metricsEndpoint_basic_auth [of "newContext \<lparr>Method = ''GET'', Path = ''/metrics'', BasicAuth = Some (''admin'', ''guess'')\<rparr>"
      authCfg exampleDeps]
    metricsEndpoint_basic_auth [of "newContext \<lparr>Method = ''GET'', Path = ''/metrics'', BasicAuth = Some (''admin'', ''secret'')\<rparr>"
      authCfg exampleDeps]
    metricsEndpoint_basic_auth [of "newContext \<lparr>Method = ''GET'', Path = ''/metrics'', BasicAuth = None\<rparr>" exampleCfg exampleDeps]
    metricsEndpoint_basic_auth [of "newContext \<lparr>Method = ''POST'', Path = ''/metrics'', BasicAuth = None\<rparr>" authCfg exampleDeps]
  by (simp add: newContext_def exampleDeps_def exampleCfg_def authCfg_def
      metricsEndpointBasicAuthEnabled_def promhttpServeHTTP_def Write_def WriteHeader_def
      Written_def Let_def)

text \<open>
  Claim C10: for a GET request for exactly \<open>/metrics\<close> with the endpoint enabled, on a
  response that nothing has been written to. Basic authentication is switched on exactly
  when both the configured user name and the configured password are non-empty. Then a
  request without the configured pair gets status 401 and an empty body, and the metrics
  handler is not called. When one of the two is empty (or the request carries the
  configured pair), the metrics handler is called once and the response has its status
  and payload, whatever credentials the request carries, none included.
\<close>

theorem metricsEndpoint_auth_needs_both_credentials:
  assumes "MetricsEndpointEnabled cfg" and "Method (Req c) = ''GET''" and "Path (Req c) = ''/metrics''"
    and "status (Resp c) = None" and "body (Resp c) = []"
  shows "(metricsEndpointBasicAuthEnabled cfg \<longleftrightarrow>
            MetricsEndpointBasicAuthUsername cfg \<noteq> [] \<and> MetricsEndpointBasicAuthPassword cfg \<noteq> []) \<and>
         (MetricsEndpointBasicAuthUsername cfg \<noteq> [] \<and> MetricsEndpointBasicAuthPassword cfg \<noteq> [] \<and>
          BasicAuth (Req c) \<noteq>
            Some (MetricsEndpointBasicAuthUsername cfg, MetricsEndpointBasicAuthPassword cfg) \<longrightarrow>
            status (Resp (metricsEndpoint d cfg c)) = Some 401 \<and>
            body (Resp (metricsEndpoint d cfg c)) = [] \<and>
            Effects (metricsEndpoint d cfg c) = Effects c) \<and>
         (MetricsEndpointBasicAuthUsername cfg = [] \<or> MetricsEndpointBasicAuthPassword cfg = [] \<or>
          BasicAuth (Req c) =
            Some (MetricsEndpointBasicAuthUsername cfg, MetricsEndpointBasicAuthPassword cfg) \<longrightarrow>
            status (Resp (metricsEndpoint d cfg c)) = Some (fst (promhttp d (Req c))) \<and>
            body (Resp (metricsEndpoint d cfg c)) = snd (promhttp d (Req c)) \<and>
            Effects (metricsEndpoint d cfg c) = Effects c @ [PromhttpServeHTTP])"
  using assms by (auto simp: handler_defs split: option.splits prod.splits)

text \<open>
  Witness for C10: only the user name configured, or only the password, and a request
  without credentials gets the payload; both configured, and the same request gets 401
  while the request with the pair gets the payload.
\<close>

theorem metricsEndpoint_auth_needs_both_credentials_witness:
  "status (Resp (metricsEndpoint exampleDeps (exampleCfg\<lparr>MetricsEndpointBasicAuthUsername := ''admin''\<rparr>)
     (newContext \<lparr>Method = ''GET'', Path = ''/metrics'', BasicAuth = None\<rparr>))) = Some 200 \<and>
   body (Resp (metricsEndpoint exampleDeps (exampleCfg\<lparr>MetricsEndpointBasicAuthPassword := ''secret''\<rparr>)
     (newContext \<lparr>Method = ''GET'', Path = ''/metrics'', BasicAuth = None\<rparr>))) = ''# EOF'' \<and>
   Effects (metricsEndpoint exampleDeps (exampleCfg\<lparr>MetricsEndpointBasicAuthUsername := ''admin''\<rparr>)
     (newContext \<lparr>Method = ''GET'', Path = ''/metrics'', BasicAuth = None\<rparr>)) = [PromhttpServeHTTP] \<and>
   status (Resp (metricsEndpoint exampleDeps authCfg
     (newContext \<lparr>Method = ''GET'', Path = ''/metrics'', BasicAuth = None\<rparr>))) = Some 401 \<and>
   Effects (metricsEndpoint exampleDeps authCfg
     (newContext \<lparr>Method = ''GET'', Path = ''/metrics'', BasicAuth = None\<rparr>)) = [] \<and>
   status (Resp (metricsEndpoint exampleDeps authCfg
     (newContext \<lparr>Method = ''GET'', Path = ''/metrics'', BasicAuth = Some (''admin'', ''secret'')\<rparr>))) =
     Some 200"
  using
    metricsEndpoint_auth_needs_both_credentials [of "exampleCfg\<lparr>MetricsEndpointBasicAuthUsername := ''admin''\<rparr>"
      "newContext \<lparr>Method = ''GET'', Path = ''/metrics'', BasicAuth = None\<rparr>" exampleDeps]
    metricsEndpoint_auth_needs_both_credentials [of "exampleCfg\<lparr>MetricsEndpointBasicAuthPassword := ''secret''\<rparr>"
      "newContext \<lparr>Method = ''GET'', Path = ''/metrics'', BasicAuth = None\<rparr>" exampleDeps]
    metricsEndpoint_auth_needs_both_credentials [of authCfg
      "newContext \<lparr>Method = ''GET'', Path = ''/metrics'', BasicAuth = None\<rparr>" exampleDeps]
    metricsEndpoint_auth_needs_both_credentials [of authCfg
      "newContext \<lparr>Method = ''GET'', Path = ''/metrics'', BasicAuth = Some (''admin'', ''secret'')\<rparr>"
      exampleDeps]
  by (simp add: newContext_def exampleCfg_def authCfg_def exampleDeps_def)

section \<open>Properties of the pipeline\<close>

lemma handlers_fold_Use:
  "handlers (fold (\<lambda>mw. Use (Custom mw)) mws m) = handlers m @ map Custom mws"
  by (induction mws arbitrary: m) (simp_all add: Use_def)

lemma handlers_Use: "handlers (Use h m) = handlers m @ [h]"
  by (simp add: Use_def)

lemma handlers_UseMiddleware: "handlers (UseMiddleware h m) = handlers m @ [h]"
  by (simp add: UseMiddleware_def)

lemma handlers_SetURLPrefix: "handlers (SetURLPrefix p m) = handlers m"
  by (simp add: SetURLPrefix_def)

lemma mapStatic_eq:
  "mapStatic hs m rootDir dir pfx =
     Use (Static (PathJoin rootDir dir)
            \<lparr>SkipLogging = True, Prefix = pfx,
             AddHeaders = HeaderSet ''Cache-Control''
               (if Env (Cfg hs) = Dev then ''max-age=0, must-revalidate, no-cache''
                else if pfx = ''public/build'' then ''public, max-age=31536000''
                else ''public, max-age=3600'')\<rparr>) m"
  by (simp add: mapStatic_def Let_def)

lemma handlers_mapStatic:
  "handlers (mapStatic hs m rootDir dir pfx) =
     handlers m @ [Static (PathJoin rootDir dir)
            \<lparr>SkipLogging = True, Prefix = pfx,
             AddHeaders = HeaderSet ''Cache-Control''
               (if Env (Cfg hs) = Dev then ''max-age=0, must-revalidate, no-cache''
                else if pfx = ''public/build'' then ''public, max-age=31536000''
                else ''public, max-age=3600'')\<rparr>]"
  unfolding mapStatic_eq by (rule handlers_Use)

lemma handlers_if_SetURLPrefix:
  "handlers (if b then SetURLPrefix p m else m) = handlers m"
  by (simp add: SetURLPrefix_def)

text \<open>The handlers of the assembled pipeline, in their order.\<close>

lemma pipeline_handlers:
  "handlers (addMiddlewaresAndStaticRoutes hs m) =
     handlers m
     @ [RequestTracing, Logger]
     @ (if EnableGzip (Cfg hs) then [Gziper] else [])
     @ [Recovery,
        Static (PathJoin (StaticRootPath (Cfg hs)) ''build'')
            \<lparr>SkipLogging = True, Prefix = ''public/build'',
             AddHeaders = HeaderSet ''Cache-Control''
               (if Env (Cfg hs) = Dev then ''max-age=0, must-revalidate, no-cache''
                else ''public, max-age=31536000'')\<rparr>,
        Static (PathJoin (StaticRootPath (Cfg hs)) [])
            \<lparr>SkipLogging = True, Prefix = ''public'',
             AddHeaders = HeaderSet ''Cache-Control''
               (if Env (Cfg hs) = Dev then ''max-age=0, must-revalidate, no-cache''
                else ''public, max-age=3600'')\<rparr>,
        Static (PathJoin (StaticRootPath (Cfg hs)) ''robots.txt'')
            \<lparr>SkipLogging = True, Prefix = ''robots.txt'',
             AddHeaders = HeaderSet ''Cache-Control''
               (if Env (Cfg hs) = Dev then ''max-age=0, must-revalidate, no-cache''
                else ''public, max-age=3600'')\<rparr>]
     @ (if ImageUploadProvider (Cfg hs) = ''local''
        then [Static (PathJoin (ImagesDir (Cfg hs)) [])
            \<lparr>SkipLogging = True, Prefix = ''/public/img/attachments'',
             AddHeaders = HeaderSet ''Cache-Control''
               (if Env (Cfg hs) = Dev then ''max-age=0, must-revalidate, no-cache''
                else ''public, max-age=3600'')\<rparr>]
        else [])
     @ [AddDefaultResponseHeaders,
        Renderer (PathJoin (StaticRootPath (Cfg hs)) ''views'') ''[['' '']]'']
     @ [HealthzHandler, ApiHealthHandler, MetricsEndpoint,
        ContextHandlerMiddleware, OrgRedirect, LoadPermissionsMiddleware]
     @ (if EnforceDomain (Cfg hs) then [ValidateHostHeader] else [])
     @ [HandleNoCacheHeader, AddCSPHeader]
     @ map Custom (middlewares hs)"
  by (cases "EnableGzip (Cfg hs)"; cases "ImageUploadProvider (Cfg hs) = ''local''";
      cases "EnforceDomain (Cfg hs)";
      simp add: addMiddlewaresAndStaticRoutes_def Let_def handlers_fold_Use handlers_Use
        handlers_UseMiddleware handlers_if_SetURLPrefix handlers_mapStatic split del: if_split)
    simp_all

text \<open>
  Claim C8: the \<open>Cache-Control\<close> value that a static mapping sets depends on the
  environment and the prefix only: the no-cache value in the development environment,
  else one year for the prefix \<open>public/build\<close> and one hour for every other prefix. The
  mapping of the build directory, with prefix \<open>public/build\<close>, is part of every assembled
  pipeline.
\<close>

theorem mapStatic_cache_control:
  "mapStatic hs m rootDir dir pfx =
     Use (Static (PathJoin rootDir dir)
            \<lparr>SkipLogging = True, Prefix = pfx,
             AddHeaders = HeaderSet ''Cache-Control''
               (if Env (Cfg hs) = Dev then ''max-age=0, must-revalidate, no-cache''
                else if pfx = ''public/build'' then ''public, max-age=31536000''
                else ''public, max-age=3600'')\<rparr>) m \<and>
   Static (PathJoin (StaticRootPath (Cfg hs)) ''build'')
     \<lparr>SkipLogging = True, Prefix = ''public/build'',
      AddHeaders = HeaderSet ''Cache-Control''
        (if Env (Cfg hs) = Dev then ''max-age=0, must-revalidate, no-cache''
         else ''public, max-age=31536000'')\<rparr>
     \<in> set (handlers (addMiddlewaresAndStaticRoutes hs m)) \<and>
   header (Resp (HeaderSet ''Cache-Control'' v c)) ''Cache-Control'' = Some v"
proof (intro conjI)
  show "mapStatic hs m rootDir dir pfx =
     Use (Static (PathJoin rootDir dir)
            \<lparr>SkipLogging = True, Prefix = pfx,
             AddHeaders = HeaderSet ''Cache-Control''
               (if Env (Cfg hs) = Dev then ''max-age=0, must-revalidate, no-cache''
                else if pfx = ''public/build'' then ''public, max-age=31536000''
                else ''public, max-age=3600'')\<rparr>) m"
    by (rule mapStatic_eq)
  show "Static (PathJoin (StaticRootPath (Cfg hs)) ''build'')
     \<lparr>SkipLogging = True, Prefix = ''public/build'',
      AddHeaders = HeaderSet ''Cache-Control''
        (if Env (Cfg hs) = Dev then ''max-age=0, must-revalidate, no-cache''
         else ''public, max-age=31536000'')\<rparr>
     \<in> set (handlers (addMiddlewaresAndStaticRoutes hs m))"
    unfolding pipeline_handlers by (simp split del: if_split)
  show "header (Resp (HeaderSet ''Cache-Control'' v c)) ''Cache-Control'' = Some v"
    by (simp add: HeaderSet_def)
qed

















end
